theory Spec2Isabelle
  imports Complex_Main "HOL-Library.AList"
begin

section \<open>JavaScript values, strings and Maps\<close>

text \<open>
  The MCP client subsystem of swarm-builder is TypeScript. An optional field \<open>f?: T\<close>
  is a \<open>T option\<close>, and \<open>if (f)\<close> holds when the field is set and truthy: a string that
  is not empty, a number that is not zero, any object or array.

  The \<open>any\<close>-typed payloads (tool parameters, schemas, result data) are values of a
  small datatype of JavaScript values. An object lists its own enumerable string keys in
  the order \<open>Object.keys\<close> reports them. Numbers are exact rationals: NaN, the infinities
  and floating-point rounding are outside the model. Strings are ASCII.
\<close>

datatype jsval =
    JUndefined
  | JNull
  | JBool bool
  | JNum rat
  | JStr string
  | JArr "jsval list"
  | JObj "(string \<times> jsval) list"

datatype js_error = Error string | TypeError string

text \<open>Truthiness, as \<open>if (v)\<close>, \<open>a && b\<close> and \<open>a || b\<close> test it.\<close>

fun truthy :: "jsval \<Rightarrow> bool" where
  "truthy JUndefined = False"
| "truthy JNull = False"
| "truthy (JBool b) = b"
| "truthy (JNum n) = (n \<noteq> 0)"
| "truthy (JStr s) = (s \<noteq> [])"
| "truthy (JArr xs) = True"
| "truthy (JObj kvs) = True"

text \<open>Decimal digits of a natural number.\<close>

definition digit_char :: "nat \<Rightarrow> char" where
  "digit_char d = char_of (48 + d)"

fun show_nat :: "nat \<Rightarrow> string" where
  "show_nat n = (if n < 10 then [digit_char n] else show_nat (n div 10) @ [digit_char (n mod 10)])"

declare show_nat.simps [simp del]

text \<open>
  An integer-valued number inside a template literal (\<open>Number::toString\<close>). With \<open>n\<close>
  the number of digits of the magnitude: up to \<open>n = 21\<close> the digits themselves; beyond
  that the first significant digit, a point and the other significant digits if there
  are any, and \<open>e+\<close> with \<open>n - 1\<close>; a minus sign in front of a negative number.

  JavaScript prints the shortest digits that read back as the same double. They are the
  digits of the integer for every safe integer (magnitude at most \<open>2^53 - 1\<close>), and the
  model prints the digits of the integer throughout; a count or a limit beyond the safe
  integers is outside what the model renders faithfully.
\<close>

definition safe_integer :: "int \<Rightarrow> bool" where
  "safe_integer i = (\<bar>i\<bar> \<le> 9007199254740991)"

definition strip_trailing_zeros :: "string \<Rightarrow> string" where
  "strip_trailing_zeros ds = rev (dropWhile (\<lambda>c. c = CHR ''0'') (rev ds))"

definition show_magnitude :: "nat \<Rightarrow> string" where
  "show_magnitude m =
     (let ds = show_nat m; n = length ds in
      if n \<le> 21 then ds
      else
        (case strip_trailing_zeros ds of
           [] \<Rightarrow> ds
         | [d] \<Rightarrow> [d] @ ''e+'' @ show_nat (n - 1)
         | d # rest \<Rightarrow> [d] @ ''.'' @ rest @ ''e+'' @ show_nat (n - 1)))"

definition show_int :: "int \<Rightarrow> string" where
  "show_int i =
     (if i < 0 then CHR ''-'' # show_magnitude (nat (- i)) else show_magnitude (nat i))"

text \<open>
  \<open>Number.prototype.toFixed(2)\<close> for a number of magnitude below \<open>10^21\<close>: the sign is
  split off, \<open>n\<close> is the integer nearest to \<open>100 * x\<close> (the larger one on a tie), and its
  digits are padded to at least three before the point is inserted.
\<close>

definition toFixed2 :: "rat \<Rightarrow> string" where
  "toFixed2 x =
     (let s = (if x < 0 then ''-'' else '''');
          n = nat \<lfloor>\<bar>x\<bar> * 100 + 1 / 2\<rfloor>;
          m = show_nat n;
          m' = (if length m \<le> 2 then replicate (3 - length m) CHR ''0'' @ m else m)
      in s @ take (length m' - 2) m' @ ''.'' @ drop (length m' - 2) m')"

text \<open>\<open>Array.prototype.join(sep)\<close> on an array of strings.\<close>

fun join :: "string \<Rightarrow> string list \<Rightarrow> string" where
  "join sep [] = []"
| "join sep [x] = x"
| "join sep (x # y # ys) = x @ sep @ join sep (y # ys)"

text \<open>\<open>String.prototype.toLowerCase\<close> on ASCII text.\<close>

definition lower_char :: "char \<Rightarrow> char" where
  "lower_char c =
     (let n = (of_char c :: nat) in if 65 \<le> n \<and> n \<le> 90 then char_of (n + 32) else c)"

definition toLowerCase :: "string \<Rightarrow> string" where
  "toLowerCase s = map lower_char s"

text \<open>\<open>String.prototype.includes\<close>: the needle occurs at some position of the text.\<close>

fun starts_with :: "string \<Rightarrow> string \<Rightarrow> bool" where
  "starts_with s [] = True"
| "starts_with [] (c # cs) = False"
| "starts_with (d # ds) (c # cs) = (d = c \<and> starts_with ds cs)"

fun str_includes :: "string \<Rightarrow> string \<Rightarrow> bool" where
  "str_includes [] needle = (needle = [])"
| "str_includes (c # cs) needle = (starts_with (c # cs) needle \<or> str_includes cs needle)"

text \<open>
  A JavaScript \<open>Map\<close> is an association list in insertion order with distinct keys:
  \<open>set\<close> on a key already present replaces the value where it stands, \<open>set\<close> on a new
  key appends, \<open>delete\<close> removes the entry, \<open>values()\<close> iterates in insertion order.
\<close>

type_synonym ('k, 'v) js_map = "('k \<times> 'v) list"

definition Map_get :: "('k, 'v) js_map \<Rightarrow> 'k \<Rightarrow> 'v option" where
  "Map_get m k = map_of m k"

definition Map_has :: "('k, 'v) js_map \<Rightarrow> 'k \<Rightarrow> bool" where
  "Map_has m k = (map_of m k \<noteq> None)"

definition Map_set :: "('k, 'v) js_map \<Rightarrow> 'k \<Rightarrow> 'v \<Rightarrow> ('k, 'v) js_map" where
  "Map_set m k v = AList.update k v m"

definition Map_delete :: "('k, 'v) js_map \<Rightarrow> 'k \<Rightarrow> ('k, 'v) js_map" where
  "Map_delete m k = AList.delete k m"

definition Map_values :: "('k, 'v) js_map \<Rightarrow> 'v list" where
  "Map_values m = map snd m"

section \<open>Tool registry (mcp-tool-registry.ts)\<close>

record MCPToolMetadata =
  category :: "string option"
  version :: "string option"
  permissions_md :: "string list option"
  costEstimate :: "string option"

text \<open>
  The field \<open>id\<close> of a tool is \<open>tool_id\<close> here, \<open>permissions\<close> of its metadata is
  \<open>permissions_md\<close>, and the fields of the filter carry the suffix \<open>_f\<close>.
\<close>

record MCPTool =
  tool_id :: string
  serverId :: string
  name :: string
  description :: string
  parameters :: jsval
  returns :: jsval
  metadata :: "MCPToolMetadata option"

record MCPToolFilter =
  serverId_f :: "string option"
  category_f :: "string option"
  search_f :: "string option"

type_synonym MCPToolRegistry = "(string, MCPTool) js_map"

definition registerTool :: "MCPToolRegistry \<Rightarrow> MCPTool \<Rightarrow> MCPToolRegistry" where
  "registerTool tools tool = Map_set tools (tool_id tool) tool"

definition unregisterTool :: "MCPToolRegistry \<Rightarrow> string \<Rightarrow> MCPToolRegistry" where
  "unregisterTool tools toolId = Map_delete tools toolId"

text \<open>\<open>this.tools.get(toolId) || null\<close>: a tool object is always truthy.\<close>

definition getTool :: "MCPToolRegistry \<Rightarrow> string \<Rightarrow> MCPTool option" where
  "getTool tools toolId = Map_get tools toolId"

text \<open>\<open>tool.metadata?.category\<close>\<close>

definition metadata_category :: "MCPTool \<Rightarrow> string option" where
  "metadata_category tool = (case metadata tool of None \<Rightarrow> None | Some m \<Rightarrow> category m)"

definition listTools :: "MCPToolRegistry \<Rightarrow> MCPToolFilter option \<Rightarrow> MCPTool list" where
  "listTools reg filter_opt =
     (let tools = Map_values reg in
      case filter_opt of
        None \<Rightarrow> tools
      | Some f \<Rightarrow>
          let tools1 = (case serverId_f f of
                          None \<Rightarrow> tools
                        | Some s \<Rightarrow>
                            if s \<noteq> [] then filter (\<lambda>tool. serverId tool = s) tools else tools);
              tools2 = (case category_f f of
                          None \<Rightarrow> tools1
                        | Some c \<Rightarrow>
                            if c \<noteq> [] then filter (\<lambda>tool. metadata_category tool = Some c) tools1
                            else tools1);
              tools3 = (case search_f f of
                          None \<Rightarrow> tools2
                        | Some q \<Rightarrow>
                            if q \<noteq> []
                            then let searchTerm = toLowerCase q in
                                 filter (\<lambda>tool. str_includes (toLowerCase (name tool)) searchTerm \<or>
                                                str_includes (toLowerCase (description tool)) searchTerm)
                                   tools2
                            else tools2)
          in tools3)"

definition searchTools :: "MCPToolRegistry \<Rightarrow> string \<Rightarrow> MCPTool list" where
  "searchTools reg query =
     listTools reg (Some \<lparr>serverId_f = None, category_f = None, search_f = Some query\<rparr>)"

section \<open>Server connection (class MCPServerConnection)\<close>

datatype ConnectionStatus = DISCONNECTED | CONNECTING | CONNECTED | ERROR

datatype Transport = websocket | http | stdio

definition transport_str :: "Transport \<Rightarrow> string" where
  "transport_str t = (case t of websocket \<Rightarrow> ''websocket'' | http \<Rightarrow> ''http'' | stdio \<Rightarrow> ''stdio'')"

record MCPServerConnectionOptions =
  transport :: Transport
  timeout :: "nat option"
  keepAlive :: "bool option"
  reconnect :: "bool option"
  maxReconnectAttempts :: "nat option"

text \<open>
  A pending request holds the \<open>resolve\<close> and \<open>reject\<close> callbacks of one promise and the
  handle of its timeout timer. The callbacks are named by the promise they settle.
\<close>

record PendingRequest =
  promise :: nat
  timeout_handle :: nat

text \<open>What a method does to the world outside the connection object, in order.\<close>

datatype effect =
    ClearTimeout nat
  | Reject nat js_error
  | Resolve nat jsval

record CapabilityTool =
  cap_tool_name :: string
  cap_tool_description :: string
  cap_tool_parameters :: jsval
  cap_tool_returns :: jsval

text \<open>The capabilities object; \<open>{}\<close> has every field unset.\<close>

record Capabilities =
  cap_name :: "string option"
  cap_version :: "string option"
  cap_transport :: "Transport option"
  cap_tools :: "CapabilityTool list option"

text \<open>
  \<open>options\<close> is \<open>None\<close> when the caller passed \<open>undefined\<close> (the facade's
  \<open>connectServer\<close> takes \<open>options?: any\<close>); \<open>socket\<close> tells whether the field is non-null.
\<close>

record MCPServerConnection =
  endpoint :: string
  options :: "MCPServerConnectionOptions option"
  status :: ConnectionStatus
  capabilities :: Capabilities
  socket :: bool
  requestId :: nat
  pendingRequests :: "(nat, PendingRequest) js_map"

definition new_MCPServerConnection ::
  "string \<Rightarrow> MCPServerConnectionOptions option \<Rightarrow> MCPServerConnection" where
  "new_MCPServerConnection ep opts =
     \<lparr>endpoint = ep, options = opts, status = DISCONNECTED,
      capabilities = \<lparr>cap_name = None, cap_version = None, cap_transport = None, cap_tools = None\<rparr>,
      socket = False, requestId = 0, pendingRequests = []\<rparr>"

text \<open>
  \<open>connectWebSocket\<close>: the placeholder socket is stored and the simulated connection
  succeeds (the 100 ms delay is not modelled).
\<close>

definition connectWebSocket :: "MCPServerConnection \<Rightarrow> MCPServerConnection" where
  "connectWebSocket c = c\<lparr>socket := True, status := CONNECTED\<rparr>"

definition echo_tool :: CapabilityTool where
  "echo_tool =
     \<lparr>cap_tool_name = ''echo'',
      cap_tool_description = ''Echo back the input message'',
      cap_tool_parameters =
        JObj [(''type'', JStr ''object''),
              (''properties'',
                 JObj [(''message'', JObj [(''type'', JStr ''string''),
                                           (''description'', JStr ''Message to echo'')])]),
              (''required'', JArr [JStr ''message''])],
      cap_tool_returns =
        JObj [(''type'', JStr ''object''),
              (''properties'',
                 JObj [(''message'', JObj [(''type'', JStr ''string''),
                                           (''description'', JStr ''Echoed message'')])])]\<rparr>"

definition fetchCapabilities :: "MCPServerConnectionOptions \<Rightarrow> Capabilities" where
  "fetchCapabilities opts =
     \<lparr>cap_name = Some ''Mock MCP Server'', cap_version = Some ''1.0.0'',
      cap_transport = Some (transport opts), cap_tools = Some [echo_tool]\<rparr>"

text \<open>
  \<open>connect\<close>. Reading \<open>this.options.transport\<close> of undefined options throws a TypeError
  inside the \<open>try\<close>, so it takes the \<open>catch\<close> branch like the unsupported transport.
  The text of a TypeError is the engine's; only its kind matters here.
\<close>

definition MCPServerConnection_connect ::
  "MCPServerConnection \<Rightarrow> (js_error + unit) \<times> MCPServerConnection" where
  "MCPServerConnection_connect c =
     (if status c = CONNECTED then (Inr (), c)
      else
        let c1 = c\<lparr>status := CONNECTING\<rparr> in
        case options c1 of
          None \<Rightarrow>
            (Inl (TypeError ''Cannot read properties of undefined (reading transport)''),
             c1\<lparr>status := ERROR\<rparr>)
        | Some opts \<Rightarrow>
            if transport opts = websocket then
              (let c2 = connectWebSocket c1 in
               (Inr (), c2\<lparr>capabilities := fetchCapabilities opts\<rparr>))
            else if transport opts = http then
              (let c2 = c1\<lparr>status := CONNECTED\<rparr> in
               (Inr (), c2\<lparr>capabilities := fetchCapabilities opts\<rparr>))
            else
              (Inl (Error (''Unsupported transport: '' @ transport_str (transport opts))),
               c1\<lparr>status := ERROR\<rparr>))"

text \<open>
  The loop of \<open>disconnect\<close> over \<open>this.pendingRequests.entries()\<close>. The iterator of a Map
  visits the entries in insertion order, and deleting the entry just visited does not make
  it skip another: the first argument is what is still to be visited, the second the map.
\<close>

fun reject_pending ::
  "(nat \<times> PendingRequest) list \<Rightarrow> (nat, PendingRequest) js_map \<Rightarrow>
     (nat, PendingRequest) js_map \<times> effect list" where
  "reject_pending [] m = (m, [])"
| "reject_pending ((rid, request) # rest) m =
     (let (m', effs) = reject_pending rest (Map_delete m rid)
      in (m', ClearTimeout (timeout_handle request) #
              Reject (promise request) (Error ''Connection closed'') # effs))"

text \<open>
  \<open>disconnect\<close>. A Connected connection reads \<open>this.options.transport\<close> before the loop,
  which throws on undefined options.
\<close>

definition MCPServerConnection_disconnect ::
  "MCPServerConnection \<Rightarrow> (js_error + unit) \<times> MCPServerConnection \<times> effect list" where
  "MCPServerConnection_disconnect c =
     (if status c \<noteq> CONNECTED then (Inr (), c, [])
      else
        case options c of
          None \<Rightarrow>
            (Inl (TypeError ''Cannot read properties of undefined (reading transport)''), c, [])
        | Some opts \<Rightarrow>
            let (pending', effs) = reject_pending (pendingRequests c) (pendingRequests c)
            in (Inr (), c\<lparr>pendingRequests := pending', status := DISCONNECTED\<rparr>, effs))"

definition getCapabilities :: "MCPServerConnection \<Rightarrow> js_error + Capabilities" where
  "getCapabilities c =
     (if status c \<noteq> CONNECTED then Inl (Error ''Not connected to server'')
      else Inr (capabilities c))"

record MCPToolResultMetadata =
  cost :: "rat option"
  latency :: "nat option"
  timestamp :: "nat option"

record MCPToolResult =
  data :: jsval
  result_metadata :: "MCPToolResultMetadata option"

text \<open>
  \<open>params.message\<close>: reading a property of \<open>undefined\<close> or \<open>null\<close> throws; an object
  gives the value stored under the key (or \<open>undefined\<close>); the other values have no such
  property.
\<close>

definition get_message :: "jsval \<Rightarrow> js_error + jsval" where
  "get_message params =
     (case params of
        JUndefined \<Rightarrow> Inl (TypeError ''Cannot read properties of undefined (reading message)'')
      | JNull \<Rightarrow> Inl (TypeError ''Cannot read properties of null (reading message)'')
      | JObj kvs \<Rightarrow> (case map_of kvs ''message'' of None \<Rightarrow> Inr JUndefined | Some v \<Rightarrow> Inr v)
      | _ \<Rightarrow> Inr JUndefined)"

text \<open>
  \<open>executeTool\<close> of the connection: the simulated server knows the tool \<open>echo\<close> only.
  \<open>now\<close> is what \<open>Date.now()\<close> returns. Nothing of the connection is written.
\<close>

definition MCPServerConnection_executeTool ::
  "MCPServerConnection \<Rightarrow> string \<Rightarrow> jsval \<Rightarrow> jsval \<Rightarrow> nat \<Rightarrow> js_error + MCPToolResult" where
  "MCPServerConnection_executeTool c toolName params context now =
     (if status c \<noteq> CONNECTED then Inl (Error ''Not connected to server'')
      else if toolName = ''echo'' then
        (case get_message params of
           Inl e \<Rightarrow> Inl e
         | Inr msg \<Rightarrow>
             if truthy msg then
               Inr \<lparr>data = JObj [(''message'', msg)],
                    result_metadata = Some \<lparr>cost = Some 0, latency = Some 10, timestamp = Some now\<rparr>\<rparr>
             else Inl (Error (''Tool not found: '' @ toolName)))
      else Inl (Error (''Tool not found: '' @ toolName)))"

section \<open>Client facade (mcp-client.ts)\<close>

text \<open>The field \<open>options\<close> of the client is never read and is left out.\<close>

record MCPClient =
  servers :: "(string, MCPServerConnection) js_map"
  toolRegistry :: MCPToolRegistry

definition new_MCPClient :: MCPClient where
  "new_MCPClient = \<lparr>servers = [], toolRegistry = []\<rparr>"

text \<open>The object \<open>{...tool, serverId, id: `${serverId}:${tool.name}`}\<close>.\<close>

definition tool_of_capability :: "string \<Rightarrow> CapabilityTool \<Rightarrow> MCPTool" where
  "tool_of_capability sid t =
     \<lparr>tool_id = sid @ '':'' @ cap_tool_name t, serverId = sid, name = cap_tool_name t,
      description = cap_tool_description t, parameters = cap_tool_parameters t,
      returns = cap_tool_returns t, metadata = None\<rparr>"

definition connectServer ::
  "MCPClient \<Rightarrow> string \<Rightarrow> string \<Rightarrow> MCPServerConnectionOptions option \<Rightarrow>
     (js_error + unit) \<times> MCPClient" where
  "connectServer cl sid ep opts =
     (if Map_has (servers cl) sid
      then (Inl (Error (''Server with ID '' @ sid @ '' already exists'')), cl)
      else
        let (r, connection) = MCPServerConnection_connect (new_MCPServerConnection ep opts) in
        case r of
          Inl e \<Rightarrow> (Inl e, cl)
        | Inr u \<Rightarrow>
            (let cl1 = cl\<lparr>servers := Map_set (servers cl) sid connection\<rparr> in
             (case getCapabilities connection of
                Inl e \<Rightarrow> (Inl e, cl1)
              | Inr caps \<Rightarrow>
                  (case cap_tools caps of
                     None \<Rightarrow> (Inr (), cl1)
                   | Some ts \<Rightarrow>
                       (Inr (),
                        cl1\<lparr>toolRegistry :=
                              foldl (\<lambda>reg t. registerTool reg (tool_of_capability sid t))
                                (toolRegistry cl1) ts\<rparr>)))))"

text \<open>
  \<open>disconnectServer\<close> is an async method with one \<open>await\<close>. What runs when it is called,
  up to the \<open>await\<close>: the lookup and the body of \<open>connection.disconnect()\<close> (an async
  method without an \<open>await\<close> of its own, so its body runs at the call). The Map holds the
  connection by reference, so what \<open>disconnect\<close> wrote to it is in the Map.
\<close>

definition disconnectServer_begin ::
  "MCPClient \<Rightarrow> string \<Rightarrow> (js_error + unit) \<times> MCPClient \<times> effect list" where
  "disconnectServer_begin cl sid =
     (case Map_get (servers cl) sid of
        None \<Rightarrow> (Inl (Error (''Server with ID '' @ sid @ '' not found'')), cl, [])
      | Some connection \<Rightarrow>
          (case MCPServerConnection_disconnect connection of
             (r, connection', effs) \<Rightarrow>
               (r, cl\<lparr>servers := Map_set (servers cl) sid connection'\<rparr>, effs)))"

text \<open>
  What runs when the method resumes after the \<open>await\<close>, in one piece: the server leaves
  the Map and the loop unregisters its tools. It works on the client as it is then.
\<close>

definition disconnectServer_resume :: "MCPClient \<Rightarrow> string \<Rightarrow> MCPClient" where
  "disconnectServer_resume cl sid =
     (let cl1 = cl\<lparr>servers := Map_delete (servers cl) sid\<rparr>;
          tools = listTools (toolRegistry cl1)
                    (Some \<lparr>serverId_f = Some sid, category_f = None, search_f = None\<rparr>)
      in cl1\<lparr>toolRegistry :=
               foldl (\<lambda>reg tool. unregisterTool reg (tool_id tool)) (toolRegistry cl1) tools\<rparr>)"

text \<open>
  The whole call when nothing else runs while it is suspended. A failed \<open>disconnect\<close>
  rejects the call and the second part never runs.
\<close>

definition disconnectServer ::
  "MCPClient \<Rightarrow> string \<Rightarrow> (js_error + unit) \<times> MCPClient \<times> effect list" where
  "disconnectServer cl sid =
     (case disconnectServer_begin cl sid of
        (Inl e, cl1, effs) \<Rightarrow> (Inl e, cl1, effs)
      | (Inr u, cl1, effs) \<Rightarrow> (Inr (), disconnectServer_resume cl1 sid, effs))"

definition MCPClient_executeTool ::
  "MCPClient \<Rightarrow> string \<Rightarrow> jsval \<Rightarrow> jsval \<Rightarrow> nat \<Rightarrow> js_error + MCPToolResult" where
  "MCPClient_executeTool cl toolId params context now =
     (case getTool (toolRegistry cl) toolId of
        None \<Rightarrow> Inl (Error (''Tool with ID '' @ toolId @ '' not found''))
      | Some tool \<Rightarrow>
          (case Map_get (servers cl) (serverId tool) of
             None \<Rightarrow> Inl (Error (''Server for tool '' @ toolId @ '' not connected''))
           | Some connection \<Rightarrow>
               MCPServerConnection_executeTool connection (name tool) params context now))"

section \<open>Permission manager (class MCPPermissionManager)\<close>

text \<open>
  Call limits are integer-valued numbers and costs are rationals. A call count is a
  natural number: it starts at zero and grows by one (below \<open>2^53\<close>, where adding one to a
  JavaScript number is exact). The three nested Maps are never iterated, so they are
  partial functions.
\<close>

record MCPPermissionOptions =
  requireApproval :: "bool option"
  maxCallsPerSession :: "int option"
  maxCostPerSession :: "rat option"
  allowedParameters :: "string list option"

record PermissionCheckResult =
  allowed :: bool
  reason :: "string option"
  requiresApproval :: "bool option"

record MCPPermissionManager =
  permissions :: "string \<rightharpoonup> (string \<rightharpoonup> MCPPermissionOptions)"
  callCounts :: "string \<rightharpoonup> (string \<rightharpoonup> nat)"
  costTracking :: "string \<rightharpoonup> (string \<rightharpoonup> rat)"

definition new_MCPPermissionManager :: MCPPermissionManager where
  "new_MCPPermissionManager =
     \<lparr>permissions = Map.empty, callCounts = Map.empty, costTracking = Map.empty\<rparr>"

definition setPermission ::
  "MCPPermissionManager \<Rightarrow> string \<Rightarrow> string \<Rightarrow> MCPPermissionOptions \<Rightarrow> MCPPermissionManager" where
  "setPermission pm agentId toolId opts =
     (let agentPermissions = (case permissions pm agentId of None \<Rightarrow> Map.empty | Some m \<Rightarrow> m)
      in pm\<lparr>permissions := (permissions pm)(agentId \<mapsto> agentPermissions(toolId \<mapsto> opts))\<rparr>)"

definition getCallCount :: "MCPPermissionManager \<Rightarrow> string \<Rightarrow> string \<Rightarrow> nat" where
  "getCallCount pm agentId toolId =
     (case callCounts pm agentId of
        None \<Rightarrow> 0
      | Some agentCallCounts \<Rightarrow> (case agentCallCounts toolId of None \<Rightarrow> 0 | Some n \<Rightarrow> n))"

definition getCost :: "MCPPermissionManager \<Rightarrow> string \<Rightarrow> string \<Rightarrow> rat" where
  "getCost pm agentId toolId =
     (case costTracking pm agentId of
        None \<Rightarrow> 0
      | Some agentCosts \<Rightarrow> (case agentCosts toolId of None \<Rightarrow> 0 | Some x \<Rightarrow> x))"

text \<open>
  \<open>Object.keys(params)\<close>, reached for truthy \<open>params\<close> only: the keys of an object, the
  indices of an array or of a string, nothing for a number or a boolean.
\<close>

definition object_keys :: "jsval \<Rightarrow> string list" where
  "object_keys v =
     (case v of
        JObj kvs \<Rightarrow> map fst kvs
      | JArr xs \<Rightarrow> map show_nat [0..<length xs]
      | JStr s \<Rightarrow> map show_nat [0..<length s]
      | _ \<Rightarrow> [])"

definition deny :: "string \<Rightarrow> PermissionCheckResult" where
  "deny msg = \<lparr>allowed = False, reason = Some msg, requiresApproval = None\<rparr>"

definition call_limit_reason :: "nat \<Rightarrow> int \<Rightarrow> string" where
  "call_limit_reason callCount limit =
     ''Call limit exceeded ('' @ show_int (int callCount) @ ''/'' @ show_int limit @ '')''"

definition cost_limit_reason :: "rat \<Rightarrow> rat \<Rightarrow> string" where
  "cost_limit_reason x limit =
     ''Cost limit exceeded ($'' @ toFixed2 x @ ''/$'' @ toFixed2 limit @ '')''"

text \<open>
  Each guarded block of \<open>checkPermission\<close> either returns a denial or falls through
  (\<open>None\<close>) to the next one.
\<close>

definition check_call_limit ::
  "MCPPermissionManager \<Rightarrow> string \<Rightarrow> string \<Rightarrow> MCPPermissionOptions \<Rightarrow>
     PermissionCheckResult option" where
  "check_call_limit pm agentId toolId toolPermissions =
     (case maxCallsPerSession toolPermissions of
        None \<Rightarrow> None
      | Some limit \<Rightarrow>
          if limit \<noteq> 0 then
            (let callCount = getCallCount pm agentId toolId in
             if limit \<le> int callCount then Some (deny (call_limit_reason callCount limit))
             else None)
          else None)"

definition check_cost_limit ::
  "MCPPermissionManager \<Rightarrow> string \<Rightarrow> string \<Rightarrow> MCPPermissionOptions \<Rightarrow>
     PermissionCheckResult option" where
  "check_cost_limit pm agentId toolId toolPermissions =
     (case maxCostPerSession toolPermissions of
        None \<Rightarrow> None
      | Some limit \<Rightarrow>
          if limit \<noteq> 0 then
            (let x = getCost pm agentId toolId in
             if limit \<le> x then Some (deny (cost_limit_reason x limit)) else None)
          else None)"

definition check_parameters :: "MCPPermissionOptions \<Rightarrow> jsval \<Rightarrow> PermissionCheckResult option" where
  "check_parameters toolPermissions params =
     (case allowedParameters toolPermissions of
        None \<Rightarrow> None
      | Some al \<Rightarrow>
          if truthy params then
            (let paramKeys = object_keys params;
                 invalidParams = filter (\<lambda>key. key \<notin> set al) paramKeys
             in if 0 < length invalidParams
                then Some (deny (''Invalid parameters: '' @ join '', '' invalidParams))
                else None)
          else None)"

definition checkPermission ::
  "MCPPermissionManager \<Rightarrow> string \<Rightarrow> string \<Rightarrow> jsval \<Rightarrow> PermissionCheckResult" where
  "checkPermission pm agentId toolId params =
     (case permissions pm agentId of
        None \<Rightarrow> deny ''Agent does not have any permissions''
      | Some agentPermissions \<Rightarrow>
          (case agentPermissions toolId of
             None \<Rightarrow> deny ''Agent does not have permission for this tool''
           | Some toolPermissions \<Rightarrow>
               (case check_call_limit pm agentId toolId toolPermissions of
                  Some denied \<Rightarrow> denied
                | None \<Rightarrow>
                    (case check_cost_limit pm agentId toolId toolPermissions of
                       Some denied \<Rightarrow> denied
                     | None \<Rightarrow>
                         (case check_parameters toolPermissions params of
                            Some denied \<Rightarrow> denied
                          | None \<Rightarrow>
                              if requireApproval toolPermissions = Some True
                              then \<lparr>allowed = True, reason = None, requiresApproval = Some True\<rparr>
                              else \<lparr>allowed = True, reason = None, requiresApproval = None\<rparr>)))))"

definition recordToolUsage ::
  "MCPPermissionManager \<Rightarrow> string \<Rightarrow> string \<Rightarrow> rat option \<Rightarrow> MCPPermissionManager" where
  "recordToolUsage pm agentId toolId cost_opt =
     (let agentCallCounts = (case callCounts pm agentId of None \<Rightarrow> Map.empty | Some m \<Rightarrow> m);
          currentCount = (case agentCallCounts toolId of None \<Rightarrow> 0 | Some n \<Rightarrow> n);
          pm1 = pm\<lparr>callCounts :=
                     (callCounts pm)(agentId \<mapsto> agentCallCounts(toolId \<mapsto> currentCount + 1))\<rparr>
      in case cost_opt of
           None \<Rightarrow> pm1
         | Some x \<Rightarrow>
             if x \<noteq> 0 then
               (let agentCosts = (case costTracking pm1 agentId of None \<Rightarrow> Map.empty | Some m \<Rightarrow> m);
                    currentCost = (case agentCosts toolId of None \<Rightarrow> 0 | Some y \<Rightarrow> y)
                in pm1\<lparr>costTracking :=
                          (costTracking pm1)(agentId \<mapsto> agentCosts(toolId \<mapsto> currentCost + x))\<rparr>)
             else pm1)"

definition resetSession :: "MCPPermissionManager \<Rightarrow> string \<Rightarrow> MCPPermissionManager" where
  "resetSession pm agentId =
     pm\<lparr>callCounts := (callCounts pm)(agentId := None),
        costTracking := (costTracking pm)(agentId := None)\<rparr>"

section \<open>The running program: one client and one permission manager\<close>

text \<open>
  The calls a caller can make on the two objects, and what each returns and writes.
  \<open>MCPClient.executeTool\<close> and \<open>checkPermission\<close> write nothing; the client holds no
  reference to a permission manager.
\<close>

record Runtime =
  client :: MCPClient
  permissionManager :: MCPPermissionManager

datatype call =
    ExecuteTool string jsval jsval nat
  | CheckPermission string string jsval
  | RecordToolUsage string string "rat option"
  | SetPermission string string MCPPermissionOptions
  | ResetSession string

datatype outcome =
    ToolOutcome "js_error + MCPToolResult"
  | CheckOutcome PermissionCheckResult
  | Done

fun exec :: "Runtime \<Rightarrow> call \<Rightarrow> outcome \<times> Runtime" where
  "exec rt (ExecuteTool toolId params context now) =
     (ToolOutcome (MCPClient_executeTool (client rt) toolId params context now), rt)"
| "exec rt (CheckPermission agentId toolId params) =
     (CheckOutcome (checkPermission (permissionManager rt) agentId toolId params), rt)"
| "exec rt (RecordToolUsage agentId toolId cost_opt) =
     (Done, rt\<lparr>permissionManager := recordToolUsage (permissionManager rt) agentId toolId cost_opt\<rparr>)"
| "exec rt (SetPermission agentId toolId opts) =
     (Done, rt\<lparr>permissionManager := setPermission (permissionManager rt) agentId toolId opts\<rparr>)"
| "exec rt (ResetSession agentId) =
     (Done, rt\<lparr>permissionManager := resetSession (permissionManager rt) agentId\<rparr>)"

fun exec_all :: "Runtime \<Rightarrow> call list \<Rightarrow> outcome list \<times> Runtime" where
  "exec_all rt [] = ([], rt)"
| "exec_all rt (c # cs) =
     (let (out, rt1) = exec rt c; (outs, rt2) = exec_all rt1 cs in (out # outs, rt2))"

section \<open>Specification-side notions and sample states\<close>

text \<open>
  The registry is a Map (its keys are distinct) that stores every tool under the tool's
  own id: \<open>registerTool\<close> is the only writer of the private Map, and it keys by \<open>tool.id\<close>.
\<close>

definition registry_ok :: "MCPToolRegistry \<Rightarrow> bool" where
  "registry_ok reg =
     (distinct (map fst reg) \<and> list_all (\<lambda>(k, tool). k = tool_id tool) reg)"

text \<open>
  A Connected connection has its options: the constructor is typed to take them, and
  \<open>connect\<close> reaches Connected only after it has read them.
\<close>

definition connection_ok :: "MCPServerConnection \<Rightarrow> bool" where
  "connection_ok c = (status c \<noteq> CONNECTED \<or> options c \<noteq> None)"

definition client_ok :: "MCPClient \<Rightarrow> bool" where
  "client_ok cl =
     (list_all (\<lambda>(sid, c). connection_ok c) (servers cl) \<and> registry_ok (toolRegistry cl))"

text \<open>
  What it means for a descriptor to match a filter, in the words of the component
  contract: every field of the filter that is provided and not empty must agree, the
  search term case-insensitively as a substring of the name or of the description.
\<close>

definition matches_filter :: "MCPToolFilter \<Rightarrow> MCPTool \<Rightarrow> bool" where
  "matches_filter f tool =
     ((case serverId_f f of None \<Rightarrow> True | Some s \<Rightarrow> s = [] \<or> serverId tool = s) \<and>
      (case category_f f of None \<Rightarrow> True | Some c \<Rightarrow> c = [] \<or> metadata_category tool = Some c) \<and>
      (case search_f f of
         None \<Rightarrow> True
       | Some q \<Rightarrow> str_includes (toLowerCase (name tool)) (toLowerCase q) \<or>
                  str_includes (toLowerCase (description tool)) (toLowerCase q)))"

definition only_serverId :: "string \<Rightarrow> MCPToolFilter option" where
  "only_serverId sid = Some \<lparr>serverId_f = Some sid, category_f = None, search_f = None\<rparr>"

text \<open>One \<open>clearTimeout\<close> and one \<open>reject\<close> for each pending entry, in the order of the Map.\<close>

definition rejections :: "(nat \<times> PendingRequest) list \<Rightarrow> effect list" where
  "rejections es =
     concat (map (\<lambda>(rid, request).
                    [ClearTimeout (timeout_handle request),
                     Reject (promise request) (Error ''Connection closed'')]) es)"

definition transport_options :: "Transport \<Rightarrow> MCPServerConnectionOptions" where
  "transport_options t =
     \<lparr>transport = t, timeout = None, keepAlive = None, reconnect = None,
      maxReconnectAttempts = None\<rparr>"

text \<open>A client that has connected the server \<open>fs\<close> over http.\<close>

definition example_client :: MCPClient where
  "example_client =
     snd (connectServer new_MCPClient ''fs'' ''http://localhost:3000''
            (Some (transport_options http)))"

definition example_params :: jsval where
  "example_params = JObj [(''message'', JStr ''hi'')]"

definition example_result :: "nat \<Rightarrow> MCPToolResult" where
  "example_result now =
     \<lparr>data = JObj [(''message'', JStr ''hi'')],
      result_metadata = Some \<lparr>cost = Some 0, latency = Some 10, timestamp = Some now\<rparr>\<rparr>"

definition call_limit_rule :: "int \<Rightarrow> MCPPermissionOptions" where
  "call_limit_rule N =
     \<lparr>requireApproval = None, maxCallsPerSession = Some N, maxCostPerSession = None,
      allowedParameters = None\<rparr>"

text \<open>A connected websocket connection with two requests in flight.\<close>

definition example_connection :: MCPServerConnection where
  "example_connection =
     \<lparr>endpoint = ''ws://localhost:8080'', options = Some (transport_options websocket),
      status = CONNECTED, capabilities = fetchCapabilities (transport_options websocket),
      socket = True, requestId = 2,
      pendingRequests = [(1, \<lparr>promise = 11, timeout_handle = 21\<rparr>),
                         (2, \<lparr>promise = 12, timeout_handle = 22\<rparr>)]\<rparr>"


text \<open>The sample client after it has also connected the server \<open>db\<close> over websocket.\<close>

definition two_server_client :: MCPClient where
  "two_server_client =
     snd (connectServer example_client ''db'' ''ws://localhost:8080''
            (Some (transport_options websocket)))"

text \<open>
  What \<open>disconnect\<close> makes of a connection that has its options, and what it does to the
  world; the client while \<open>disconnectServer\<close> of a connection is suspended at its \<open>await\<close>.
\<close>

definition disconnected :: "MCPServerConnection \<Rightarrow> MCPServerConnection" where
  "disconnected c =
     (if status c = CONNECTED then c\<lparr>pendingRequests := [], status := DISCONNECTED\<rparr> else c)"

definition disconnect_effects :: "MCPServerConnection \<Rightarrow> effect list" where
  "disconnect_effects c = (if status c = CONNECTED then rejections (pendingRequests c) else [])"

definition awaiting_disconnect :: "MCPClient \<Rightarrow> string \<Rightarrow> MCPServerConnection \<Rightarrow> MCPClient" where
  "awaiting_disconnect cl sid connection =
     cl\<lparr>servers := Map_set (servers cl) sid (disconnected connection)\<rparr>"

text \<open>
  The sample client while \<open>disconnectServer("fs")\<close> is suspended at its \<open>await\<close>.
\<close>

definition suspended_client :: MCPClient where
  "suspended_client = fst (snd (disconnectServer_begin two_server_client ''fs''))"

text \<open>A limit that is set is not below zero.\<close>

definition limit_not_negative :: "'a::linordered_idom option \<Rightarrow> bool" where
  "limit_not_negative limit = (case limit of None \<Rightarrow> True | Some n \<Rightarrow> 0 \<le> n)"

text \<open>A manager whose only rule gives \<open>agent1\<close> the tool \<open>fs:echo\<close> with a call limit.\<close>

definition limited_manager :: "int \<Rightarrow> MCPPermissionManager" where
  "limited_manager N =
     setPermission new_MCPPermissionManager ''agent1'' ''fs:echo'' (call_limit_rule N)"

section \<open>Auxiliary facts\<close>

lemmas example_client_defs =
  example_client_def connectServer_def new_MCPClient_def Map_has_def Map_set_def
  MCPServerConnection_connect_def new_MCPServerConnection_def transport_options_def
  fetchCapabilities_def getCapabilities_def registerTool_def Let_def

lemma example_client_eq:
  "example_client =
     \<lparr>servers =
        [(''fs'', \<lparr>endpoint = ''http://localhost:3000'', options = Some (transport_options http),
                  status = CONNECTED, capabilities = fetchCapabilities (transport_options http),
                  socket = False, requestId = 0, pendingRequests = []\<rparr>)],
      toolRegistry = [(''fs:echo'', tool_of_capability ''fs'' echo_tool)]\<rparr>"
  by (simp add: example_client_defs tool_of_capability_def echo_tool_def)

lemma example_client_executeTool:
  "MCPClient_executeTool example_client ''fs:echo'' example_params context now =
     Inr (example_result now)"
  by (simp add: example_client_eq MCPClient_executeTool_def getTool_def Map_get_def
        tool_of_capability_def echo_tool_def MCPServerConnection_executeTool_def
        get_message_def example_params_def example_result_def)

subsection \<open>Strings\<close>

lemma starts_with_iff: "starts_with s needle \<longleftrightarrow> (\<exists>ss. s = needle @ ss)"
  by (induction s needle rule: starts_with.induct) auto

lemma str_includes_iff: "str_includes s needle \<longleftrightarrow> (\<exists>ps ss. s = ps @ needle @ ss)"
proof (induction s)
  case Nil
  show ?case by auto
next
  case (Cons c cs)
  show ?case
  proof
    assume "str_includes (c # cs) needle"
    then consider "starts_with (c # cs) needle" | "str_includes cs needle" by auto
    then show "\<exists>ps ss. c # cs = ps @ needle @ ss"
    proof cases
      case 1
      then obtain ss where "c # cs = needle @ ss" by (auto simp: starts_with_iff)
      then have "c # cs = [] @ needle @ ss" by simp
      then show ?thesis by blast
    next
      case 2
      then obtain ps ss where "cs = ps @ needle @ ss" using Cons.IH by blast
      then have "c # cs = (c # ps) @ needle @ ss" by simp
      then show ?thesis by blast
    qed
  next
    assume "\<exists>ps ss. c # cs = ps @ needle @ ss"
    then obtain ps ss where eq: "c # cs = ps @ needle @ ss" by blast
    show "str_includes (c # cs) needle"
    proof (cases ps)
      case Nil
      then have "starts_with (c # cs) needle" using eq by (auto simp: starts_with_iff)
      then show ?thesis by simp
    next
      case (Cons p ps')
      then have "cs = ps' @ needle @ ss" using eq by simp
      then have "str_includes cs needle" using Cons.IH by blast
      then show ?thesis by simp
    qed
  qed
qed

lemma str_includes_empty: "str_includes s []"
  by (induction s) auto

text \<open>A number of magnitude \<open>10^21\<close> is printed with an exponent.\<close>

lemma show_int_exponent: "show_int (- 1000000000000000000000) = ''-1e+21''"
proof -
  have d: "char_of (48::nat) = CHR ''0''" "char_of (49::nat) = CHR ''1''"
    "char_of (50::nat) = CHR ''2''"
    by code_simp+
  show ?thesis
    by (simp add: show_int_def show_magnitude_def show_nat.simps digit_char_def
          strip_trailing_zeros_def Let_def d)
qed

subsection \<open>The registry\<close>

lemma registry_ok_empty: "registry_ok []"
  by (simp add: registry_ok_def)

lemma keyed_update:
  "list_all (\<lambda>(k, tool). k = tool_id tool) reg \<Longrightarrow>
     list_all (\<lambda>(k, tool). k = tool_id tool) (AList.update (tool_id tool) tool reg)"
  by (induction reg) auto

lemma keyed_delete:
  "list_all (\<lambda>(k, tool). k = tool_id tool) reg \<Longrightarrow>
     list_all (\<lambda>(k, tool). k = tool_id tool) (AList.delete toolId reg)"
  by (induction reg) auto

lemma registry_ok_registerTool: "registry_ok reg \<Longrightarrow> registry_ok (registerTool reg tool)"
  by (simp add: registry_ok_def registerTool_def Map_set_def distinct_update keyed_update)

lemma registry_ok_unregisterTool: "registry_ok reg \<Longrightarrow> registry_ok (unregisterTool reg toolId)"
  by (simp add: registry_ok_def unregisterTool_def Map_delete_def distinct_delete keyed_delete)

lemma registry_ok_foldl_register:
  "registry_ok reg \<Longrightarrow> registry_ok (foldl (\<lambda>reg t. registerTool reg (f t)) reg ts)"
  by (induction ts arbitrary: reg) (simp_all add: registry_ok_registerTool)

lemma registry_ok_foldl_unregister:
  "registry_ok reg \<Longrightarrow>
     registry_ok (foldl (\<lambda>reg tool. unregisterTool reg (tool_id tool)) reg ts)"
  by (induction ts arbitrary: reg) (simp_all add: registry_ok_unregisterTool)

text \<open>Both writers of the facade keep the registry keyed by tool id.\<close>

lemma registry_ok_connectServer:
  "registry_ok (toolRegistry cl) \<Longrightarrow>
     registry_ok (toolRegistry (snd (connectServer cl sid ep opts)))"
  by (auto simp: connectServer_def Let_def registry_ok_foldl_register
        split: prod.splits sum.splits option.splits)

lemma toolRegistry_begin:
  "toolRegistry (fst (snd (disconnectServer_begin cl sid))) = toolRegistry cl"
  by (simp add: disconnectServer_begin_def split: option.splits prod.splits)

lemma registry_ok_resume:
  "registry_ok (toolRegistry cl) \<Longrightarrow> registry_ok (toolRegistry (disconnectServer_resume cl sid))"
  by (simp add: disconnectServer_resume_def Let_def registry_ok_foldl_unregister)

lemma registry_ok_disconnectServer:
  assumes "registry_ok (toolRegistry cl)"
  shows "registry_ok (toolRegistry (fst (snd (disconnectServer cl sid))))"
proof -
  obtain r cl1 effs where b: "disconnectServer_begin cl sid = (r, cl1, effs)"
    by (cases "disconnectServer_begin cl sid")
  have "toolRegistry cl1 = toolRegistry cl"
    using toolRegistry_begin [of cl sid] b by simp
  then have "registry_ok (toolRegistry cl1)" using assms by simp
  then show ?thesis
    by (cases r) (simp_all add: disconnectServer_def b registry_ok_resume)
qed

text \<open>A tool with a new id goes to the end of the iteration order.\<close>

lemma registerTool_fresh:
  "tool_id tool \<notin> fst ` set reg \<Longrightarrow>
     Map_values (registerTool reg tool) = Map_values reg @ [tool]"
  by (induction reg) (auto simp: registerTool_def Map_set_def Map_values_def)

lemma foldl_unregister:
  "foldl (\<lambda>reg tool. unregisterTool reg (tool_id tool)) reg ts =
     filter (\<lambda>kv. fst kv \<notin> tool_id ` set ts) reg"
proof (induction ts arbitrary: reg)
  case Nil
  show ?case by simp
next
  case (Cons t ts)
  have "filter (\<lambda>kv. fst kv \<notin> tool_id ` set ts) (unregisterTool reg (tool_id t)) =
        filter (\<lambda>kv. fst kv \<notin> tool_id ` set (t # ts)) reg"
    by (induction reg) (auto simp: unregisterTool_def Map_delete_def)
  then show ?case using Cons.IH by simp
qed

lemma listTools_serverId:
  "listTools reg (only_serverId sid) =
     (if sid \<noteq> [] then filter (\<lambda>tool. serverId tool = sid) (Map_values reg)
      else Map_values reg)"
  by (simp add: listTools_def only_serverId_def)

text \<open>What the loop of \<open>disconnectServer\<close> leaves in the registry.\<close>

lemma unregister_server_tools:
  assumes ok: "registry_ok reg"
      and def: "reg' = foldl (\<lambda>reg tool. unregisterTool reg (tool_id tool)) reg
                        (listTools reg (only_serverId sid))"
  shows "\<forall>kv \<in> set reg'. serverId (snd kv) \<noteq> sid"
    and "\<forall>tool \<in> set (Map_values reg). serverId tool = sid \<longrightarrow> getTool reg' (tool_id tool) = None"
    and "listTools reg' (only_serverId sid) = []"
proof -
  let ?ts = "listTools reg (only_serverId sid)"
  have reg': "reg' = filter (\<lambda>kv. fst kv \<notin> tool_id ` set ?ts) reg"
    unfolding def by (rule foldl_unregister)
  have key: "fst kv = tool_id (snd kv)" if "kv \<in> set reg" for kv
    using ok that by (auto simp: registry_ok_def list_all_iff)
  have listed: "snd kv \<in> set ?ts" if "kv \<in> set reg" "serverId (snd kv) = sid" for kv
    using that by (auto simp: listTools_serverId Map_values_def)
  show gone: "\<forall>kv \<in> set reg'. serverId (snd kv) \<noteq> sid"
  proof
    fix kv assume "kv \<in> set reg'"
    then have in_reg: "kv \<in> set reg" and out: "fst kv \<notin> tool_id ` set ?ts"
      by (auto simp: reg')
    show "serverId (snd kv) \<noteq> sid"
    proof
      assume "serverId (snd kv) = sid"
      then have "snd kv \<in> set ?ts" using in_reg by (rule listed[rotated])
      then have "fst kv \<in> tool_id ` set ?ts" using key[OF in_reg] by simp
      then show False using out by contradiction
    qed
  qed
  show "\<forall>tool \<in> set (Map_values reg). serverId tool = sid \<longrightarrow> getTool reg' (tool_id tool) = None"
  proof (intro ballI impI)
    fix tool assume "tool \<in> set (Map_values reg)" and sid: "serverId tool = sid"
    then obtain kv where kv: "kv \<in> set reg" "snd kv = tool" by (auto simp: Map_values_def)
    then have "tool \<in> set ?ts" using listed[of kv] sid by simp
    then have "tool_id tool \<notin> fst ` set reg'" by (auto simp: reg')
    then show "getTool reg' (tool_id tool) = None"
      by (simp add: getTool_def Map_get_def map_of_eq_None_iff)
  qed
  show "listTools reg' (only_serverId sid) = []"
  proof (cases "sid = []")
    case False
    have "filter (\<lambda>tool. serverId tool = sid) (Map_values reg') = []"
      using gone unfolding filter_empty_conv Map_values_def by auto
    then show ?thesis using False by (simp only: listTools_serverId if_True not_False_eq_True)
  next
    case True
    have "kv \<notin> set reg'" for kv
    proof
      assume in': "kv \<in> set reg'"
      then have in_reg: "kv \<in> set reg" by (simp add: reg')
      then have "snd kv \<in> set ?ts"
        by (simp add: listTools_serverId True Map_values_def)
      then have "fst kv \<in> tool_id ` set ?ts" using key[OF in_reg] by simp
      then show False using in' by (simp add: reg')
    qed
    then have "reg' = []" by (meson last_in_set)
    then show ?thesis by (simp add: listTools_serverId Map_values_def)
  qed
qed

subsection \<open>The pending requests\<close>

lemma reject_pending_map:
  "fst (reject_pending es m) = filter (\<lambda>kv. fst kv \<notin> fst ` set es) m"
proof (induction es arbitrary: m)
  case Nil
  show ?case by simp
next
  case (Cons e es)
  obtain rid request where e: "e = (rid, request)" by (cases e)
  have "fst (reject_pending (e # es) m) = fst (reject_pending es (Map_delete m rid))"
    by (simp add: e split: prod.splits)
  also have "\<dots> = filter (\<lambda>kv. fst kv \<notin> fst ` set es) (Map_delete m rid)"
    by (rule Cons.IH)
  also have "\<dots> = filter (\<lambda>kv. fst kv \<notin> fst ` set (e # es)) m"
    by (induction m) (auto simp: Map_delete_def e)
  finally show ?case .
qed

lemma reject_pending_effects: "snd (reject_pending es m) = rejections es"
proof (induction es arbitrary: m)
  case Nil
  show ?case by (simp add: rejections_def)
next
  case (Cons e es)
  obtain rid request where e: "e = (rid, request)" by (cases e)
  show ?case using Cons.IH[of "Map_delete m rid"]
    by (simp add: e rejections_def case_prod_beta)
qed

text \<open>
  With one promise per pending entry, \<open>disconnect\<close> calls each promise's \<open>reject\<close> once and
  no \<open>resolve\<close> at all.
\<close>

lemma rejections_no_resolve: "Resolve p v \<notin> set (rejections es)"
  by (auto simp: rejections_def)

lemma rejections_once:
  "distinct (map (\<lambda>kv. promise (snd kv)) es) \<Longrightarrow> (rid, request) \<in> set es \<Longrightarrow>
     count_list (rejections es) (Reject (promise request) (Error ''Connection closed'')) = 1"
proof (induction es)
  case Nil
  then show ?case by simp
next
  case (Cons e es)
  obtain rid' request' where e: "e = (rid', request')" by (cases e)
  have step: "count_list (rejections (e # es)) (Reject p err) =
        (if promise request' = p \<and> err = Error ''Connection closed'' then 1 else 0) +
        count_list (rejections es) (Reject p err)" for p err
    by (simp add: rejections_def e)
  have absent: "count_list (rejections es) (Reject p err) = 0"
    if "p \<notin> (\<lambda>kv. promise (snd kv)) ` set es" for p err
    using that by (induction es) (auto simp: rejections_def)
  show ?case
  proof (cases "(rid, request) = e")
    case True
    then have req: "request' = request" using e by simp
    have "promise request \<notin> (\<lambda>kv. promise (snd kv)) ` set es"
      using Cons.prems(1) e True by auto
    then show ?thesis unfolding step using req by (simp add: absent)
  next
    case False
    then have in_es: "(rid, request) \<in> set es" using Cons.prems(2) by simp
    then have "promise request' \<noteq> promise request"
      using Cons.prems(1) e by force
    then show ?thesis unfolding step using Cons.IH in_es Cons.prems(1) by simp
  qed
qed

subsection \<open>Connections keep their options\<close>

lemma connection_ok_new: "connection_ok (new_MCPServerConnection ep opts)"
  by (simp add: connection_ok_def new_MCPServerConnection_def)

lemma connection_ok_connect:
  "connection_ok c \<Longrightarrow> connection_ok (snd (MCPServerConnection_connect c))"
  by (auto simp: connection_ok_def MCPServerConnection_connect_def connectWebSocket_def Let_def
        split: option.splits)

lemma connection_ok_disconnect:
  "connection_ok c \<Longrightarrow> connection_ok (fst (snd (MCPServerConnection_disconnect c)))"
  by (auto simp: connection_ok_def MCPServerConnection_disconnect_def case_prod_beta
        split: option.splits)

lemma disconnect_ok:
  "connection_ok c \<Longrightarrow>
     MCPServerConnection_disconnect c =
       (if status c \<noteq> CONNECTED then (Inr (), c, [])
        else (Inr (), c\<lparr>pendingRequests := [], status := DISCONNECTED\<rparr>,
              rejections (pendingRequests c)))"
proof (cases "status c = CONNECTED")
  case False
  then show ?thesis by (simp add: MCPServerConnection_disconnect_def)
next
  case True
  assume "connection_ok c"
  then obtain opts where opts: "options c = Some opts"
    using True by (auto simp: connection_ok_def)
  obtain m effs where r: "reject_pending (pendingRequests c) (pendingRequests c) = (m, effs)"
    by (cases "reject_pending (pendingRequests c) (pendingRequests c)")
  have "m = []"
    using reject_pending_map [of "pendingRequests c" "pendingRequests c"] r
    by (simp add: filter_empty_conv)
  moreover have "effs = rejections (pendingRequests c)"
    using reject_pending_effects [of "pendingRequests c" "pendingRequests c"] r by simp
  ultimately show ?thesis
    using True r opts by (simp add: MCPServerConnection_disconnect_def)
qed

lemma servers_ok_set:
  "list_all (\<lambda>(sid, c). connection_ok c) m \<Longrightarrow> connection_ok c \<Longrightarrow>
     list_all (\<lambda>(sid, c). connection_ok c) (Map_set m k c)"
  by (induction m) (auto simp: Map_set_def)

lemma servers_ok_delete:
  "list_all (\<lambda>(sid, c). connection_ok c) m \<Longrightarrow>
     list_all (\<lambda>(sid, c). connection_ok c) (Map_delete m k)"
  by (induction m) (auto simp: Map_delete_def)

lemma servers_ok_get:
  "list_all (\<lambda>(sid, c). connection_ok c) m \<Longrightarrow> Map_get m k = Some c \<Longrightarrow> connection_ok c"
  by (auto simp: Map_get_def list_all_iff dest: map_of_SomeD)

text \<open>
  Every client that \<open>connectServer\<close> and \<open>disconnectServer\<close> build from the empty one
  is well formed.
\<close>

lemma client_ok_new: "client_ok new_MCPClient"
  by (simp add: client_ok_def new_MCPClient_def registry_ok_def)

lemma client_ok_connectServer:
  assumes "client_ok cl"
  shows "client_ok (snd (connectServer cl sid ep opts))"
proof -
  have c: "connection_ok (snd (MCPServerConnection_connect (new_MCPServerConnection ep opts)))"
    by (rule connection_ok_connect [OF connection_ok_new])
  have s: "list_all (\<lambda>(sid, c). connection_ok c) (servers (snd (connectServer cl sid ep opts)))"
    using assms c
    by (auto simp: client_ok_def connectServer_def Let_def servers_ok_set
          split: prod.splits sum.splits option.splits)
  have "registry_ok (toolRegistry (snd (connectServer cl sid ep opts)))"
    using assms by (simp add: client_ok_def registry_ok_connectServer)
  then show ?thesis using s by (simp add: client_ok_def)
qed

lemma client_ok_begin:
  assumes "client_ok cl"
  shows "client_ok (fst (snd (disconnectServer_begin cl sid)))"
proof (cases "Map_get (servers cl) sid")
  case None
  then show ?thesis using assms by (simp add: disconnectServer_begin_def)
next
  case (Some connection)
  have ok: "connection_ok connection"
    using assms Some by (auto simp: client_ok_def intro: servers_ok_get)
  have "connection_ok (fst (snd (MCPServerConnection_disconnect connection)))"
    by (rule connection_ok_disconnect [OF ok])
  then show ?thesis
    using assms Some
    by (auto simp: disconnectServer_begin_def client_ok_def servers_ok_set split: prod.splits)
qed

lemma client_ok_resume: "client_ok cl \<Longrightarrow> client_ok (disconnectServer_resume cl sid)"
  using registry_ok_resume [of cl sid]
  by (simp add: client_ok_def disconnectServer_resume_def Let_def servers_ok_delete)

lemma client_ok_disconnectServer:
  assumes "client_ok cl"
  shows "client_ok (fst (snd (disconnectServer cl sid)))"
proof -
  obtain r cl1 effs where b: "disconnectServer_begin cl sid = (r, cl1, effs)"
    by (cases "disconnectServer_begin cl sid")
  have "client_ok cl1"
    using client_ok_begin [OF assms, of sid] b by simp
  then show ?thesis
    by (cases r) (simp_all add: disconnectServer_def b client_ok_resume)
qed

subsection \<open>The two parts of \<open>disconnectServer\<close>\<close>

lemma disconnectServer_begin_ok:
  assumes "Map_get (servers cl) sid = Some connection" and "connection_ok connection"
  shows "disconnectServer_begin cl sid =
           (Inr (), awaiting_disconnect cl sid connection, disconnect_effects connection)"
  using assms
  by (simp add: disconnectServer_begin_def disconnect_ok awaiting_disconnect_def disconnected_def
        disconnect_effects_def)

lemma disconnectServer_resume_awaiting:
  "disconnectServer_resume (awaiting_disconnect cl sid connection) sid =
     cl\<lparr>servers := Map_delete (servers cl) sid,
        toolRegistry :=
          foldl (\<lambda>reg tool. unregisterTool reg (tool_id tool)) (toolRegistry cl)
            (listTools (toolRegistry cl) (only_serverId sid))\<rparr>"
  by (simp add: disconnectServer_resume_def awaiting_disconnect_def Let_def only_serverId_def
        Map_delete_def Map_set_def delete_update_same)

text \<open>For an id that is not empty the loop removes the server's entries and no other.\<close>

lemma unregister_server_tools_exact:
  assumes ok: "registry_ok reg" and sid: "sid \<noteq> []"
  shows "foldl (\<lambda>reg tool. unregisterTool reg (tool_id tool)) reg
           (listTools reg (only_serverId sid)) =
         filter (\<lambda>kv. serverId (snd kv) \<noteq> sid) reg"
proof -
  let ?ts = "listTools reg (only_serverId sid)"
  have ts: "set ?ts = {tool \<in> snd ` set reg. serverId tool = sid}"
    using sid by (auto simp: listTools_serverId Map_values_def)
  have key: "fst kv = tool_id (snd kv)" if "kv \<in> set reg" for kv
    using ok that by (auto simp: registry_ok_def list_all_iff)
  have dist: "distinct (map fst reg)"
    using ok by (simp add: registry_ok_def)
  have "(fst kv \<notin> tool_id ` set ?ts) = (serverId (snd kv) \<noteq> sid)" if kv: "kv \<in> set reg" for kv
  proof
    assume out: "fst kv \<notin> tool_id ` set ?ts"
    show "serverId (snd kv) \<noteq> sid"
    proof
      assume "serverId (snd kv) = sid"
      then have "snd kv \<in> set ?ts" using kv by (auto simp: ts)
      then have "fst kv \<in> tool_id ` set ?ts" using key [OF kv] by simp
      then show False using out by contradiction
    qed
  next
    assume other: "serverId (snd kv) \<noteq> sid"
    show "fst kv \<notin> tool_id ` set ?ts"
    proof
      assume "fst kv \<in> tool_id ` set ?ts"
      then obtain kv' where kv': "kv' \<in> set reg" "serverId (snd kv') = sid"
          "fst kv = tool_id (snd kv')"
        by (auto simp: ts)
      then have "fst kv' = fst kv" using key [of kv'] by simp
      then have "kv' = kv"
        using dist kv kv'(1) by (metis eq_key_imp_eq_value prod.collapse)
      then show False using other kv'(2) by simp
    qed
  qed
  then have "filter (\<lambda>kv. fst kv \<notin> tool_id ` set ?ts) reg =
             filter (\<lambda>kv. serverId (snd kv) \<noteq> sid) reg"
    by (intro filter_cong refl) simp
  then show ?thesis by (simp only: foldl_unregister)
qed

subsection \<open>The usage counters\<close>

lemma getCallCount_recordToolUsage:
  "getCallCount (recordToolUsage pm a t x) a' t' =
     (if a' = a \<and> t' = t then getCallCount pm a t + 1 else getCallCount pm a' t')"
  by (auto simp: getCallCount_def recordToolUsage_def Let_def split: option.splits)

lemma permissions_recordToolUsage: "permissions (recordToolUsage pm a t x) = permissions pm"
  by (simp add: recordToolUsage_def Let_def split: option.splits)

lemma permissions_foldl_record:
  "permissions (foldl (\<lambda>pm x. recordToolUsage pm a t x) pm xs) = permissions pm"
  by (induction xs arbitrary: pm) (simp_all add: permissions_recordToolUsage)

lemma getCallCount_foldl_record:
  "getCallCount (foldl (\<lambda>pm x. recordToolUsage pm a t x) pm xs) a t =
     getCallCount pm a t + length xs"
  by (induction xs arbitrary: pm) (simp_all add: getCallCount_recordToolUsage)

lemma resetSession_counters:
  "getCallCount (resetSession pm a) a t = 0" "getCost (resetSession pm a) a t = 0"
  by (simp_all add: getCallCount_def getCost_def resetSession_def)

subsection \<open>The permission check\<close>

lemma checkPermission_call_limit:
  assumes "permissions pm a = Some ap" "ap t = Some tp" "maxCallsPerSession tp = Some N" "N \<noteq> 0"
      and "N \<le> int (getCallCount pm a t)"
  shows "checkPermission pm a t params = deny (call_limit_reason (getCallCount pm a t) N)"
  using assms by (simp add: checkPermission_def check_call_limit_def)

lemma limited_manager_rule:
  "permissions (limited_manager N) ''agent1'' = Some [''fs:echo'' \<mapsto> call_limit_rule N]"
  "callCounts (limited_manager N) = Map.empty" "costTracking (limited_manager N) = Map.empty"
  by (simp_all add: limited_manager_def setPermission_def new_MCPPermissionManager_def)

text \<open>With a rule and parameters inside the allow-list, only a limit can deny.\<close>

lemma denied_by_limit:
  assumes "permissions pm agentId = Some agentPermissions"
      and "agentPermissions toolId = Some toolPermissions"
      and "\<not> allowed (checkPermission pm agentId toolId params)"
      and "check_parameters toolPermissions params = None"
  shows "check_call_limit pm agentId toolId toolPermissions \<noteq> None \<or>
         check_cost_limit pm agentId toolId toolPermissions \<noteq> None"
  using assms by (auto simp: checkPermission_def split: option.splits if_splits)

text \<open>
  The call-limit block for a limit other than zero: the check is denied as soon as the
  recorded calls reach the limit, and the reason carries the count and the limit.
\<close>

lemma call_limit_denied:
  assumes "permissions pm agentId = Some agentPermissions"
      and "agentPermissions toolId = Some toolPermissions"
      and "maxCallsPerSession toolPermissions = Some N"
      and "N \<noteq> 0"
      and "safe_integer N"
      and "safe_integer (int (getCallCount pm agentId toolId + length costs))"
      and "N \<le> int (getCallCount pm agentId toolId + length costs)"
  shows "checkPermission (foldl (\<lambda>pm x. recordToolUsage pm agentId toolId x) pm costs)
           agentId toolId params =
         \<lparr>allowed = False,
          reason = Some (''Call limit exceeded ('' @
                         show_int (int (getCallCount pm agentId toolId + length costs)) @
                         ''/'' @ show_int N @ '')''),
          requiresApproval = None\<rparr>"
proof -
  let ?pm = "foldl (\<lambda>pm x. recordToolUsage pm agentId toolId x) pm costs"
  have cnt: "getCallCount ?pm agentId toolId = getCallCount pm agentId toolId + length costs"
    by (rule getCallCount_foldl_record)
  have rule: "permissions ?pm agentId = Some agentPermissions"
    using assms(1) by (simp add: permissions_foldl_record)
  have reached: "N \<le> int (getCallCount ?pm agentId toolId)"
    using assms(7) by (simp only: cnt)
  have "checkPermission ?pm agentId toolId params =
      deny (call_limit_reason (getCallCount ?pm agentId toolId) N)"
    by (rule checkPermission_call_limit [OF rule assms(2) assms(3) assms(4) reached])
  then show ?thesis by (simp only: cnt deny_def call_limit_reason_def)
qed

text \<open>With the limit 1, the check after one recorded call is denied with \<open>1/1\<close>.\<close>

lemma call_limit_one_of_one:
  "checkPermission (limited_manager 1) ''agent1'' ''fs:echo'' example_params =
     \<lparr>allowed = True, reason = None, requiresApproval = None\<rparr> \<and>
   checkPermission (recordToolUsage (limited_manager 1) ''agent1'' ''fs:echo'' (Some 0))
     ''agent1'' ''fs:echo'' example_params =
     \<lparr>allowed = False, reason = Some ''Call limit exceeded (1/1)'', requiresApproval = None\<rparr>"
proof -
  have h1: "permissions (limited_manager 1) ''agent1'' = Some [''fs:echo'' \<mapsto> call_limit_rule 1]"
    by (rule limited_manager_rule)
  have h2: "[''fs:echo'' \<mapsto> call_limit_rule 1] ''fs:echo'' = Some (call_limit_rule 1)"
    by simp
  have h3: "maxCallsPerSession (call_limit_rule 1) = Some 1"
    by (simp add: call_limit_rule_def)
  have h4: "(1::int) \<noteq> 0" by simp
  have c: "getCallCount (limited_manager 1) ''agent1'' ''fs:echo'' = 0"
    by (simp add: getCallCount_def limited_manager_rule)
  have h5: "safe_integer 1" by (simp add: safe_integer_def)
  have h6: "safe_integer
              (int (getCallCount (limited_manager 1) ''agent1'' ''fs:echo'' + length [Some (0::rat)]))"
    by (simp add: c safe_integer_def)
  have h7: "1 \<le> int (getCallCount (limited_manager 1) ''agent1'' ''fs:echo'' + length [Some (0::rat)])"
    by (simp add: c)
  have s1: "show_int 1 = ''1''" by code_simp
  have before: "checkPermission (limited_manager 1) ''agent1'' ''fs:echo'' example_params =
                  \<lparr>allowed = True, reason = None, requiresApproval = None\<rparr>"
    by (simp add: checkPermission_def h1 check_call_limit_def check_cost_limit_def
          check_parameters_def call_limit_rule_def c)
  show ?thesis
    using before c call_limit_denied [OF h1 h2 h3 h4 h5 h6 h7, of example_params]
    by (simp add: s1)
qed

section \<open>Claims\<close>

text \<open>
  C1. \<open>executeTool\<close> of the client facade never records usage: the call leaves the whole
  state, the usage counters included, as it was, whether it succeeds or fails.
  The counters of a pair (caller, tool) grow only by \<open>recordToolUsage\<close>, by exactly one
  call for that pair and by nothing for any other pair.
\<close>

theorem executeTool_records_no_usage:
  "snd (exec rt (ExecuteTool toolId params context now)) = rt \<and>
   getCallCount (recordToolUsage pm agentId tool x) agentId' tool' =
     (if agentId' = agentId \<and> tool' = tool then getCallCount pm agentId tool + 1
      else getCallCount pm agentId' tool')"
  by (simp add: getCallCount_recordToolUsage)

text \<open>
  A call that the rule of \<open>agent1\<close> allows and that succeeds on the server leaves the
  call count of (\<open>agent1\<close>, \<open>fs:echo\<close>) at zero.
\<close>

theorem executeTool_success_unrecorded_counterexample:
  "checkPermission (limited_manager 1) ''agent1'' ''fs:echo'' example_params =
     \<lparr>allowed = True, reason = None, requiresApproval = None\<rparr> \<and>
   fst (exec \<lparr>client = example_client, permissionManager = limited_manager 1\<rparr>
          (ExecuteTool ''fs:echo'' example_params JUndefined 7)) =
     ToolOutcome (Inr (example_result 7)) \<and>
   getCallCount
     (permissionManager
        (snd (exec \<lparr>client = example_client, permissionManager = limited_manager 1\<rparr>
                (ExecuteTool ''fs:echo'' example_params JUndefined 7))))
     ''agent1'' ''fs:echo'' = 0"
  by (simp add: example_client_executeTool getCallCount_def limited_manager_rule
        checkPermission_def check_call_limit_def check_cost_limit_def check_parameters_def
        call_limit_rule_def)

text \<open>
  C2. \<open>executeTool\<close> of the client facade does not consult the permission manager. It
  succeeds exactly when the tool is in the catalog, the connection of its server is in
  the server map and Connected, and the server accepts the call; whatever
  \<open>checkPermission\<close> returns for the caller plays no part.
\<close>

theorem executeTool_success_iff:
  "fst (exec rt (ExecuteTool toolId params context now)) = ToolOutcome (Inr r) \<longleftrightarrow>
     (\<exists>tool connection msg.
        getTool (toolRegistry (client rt)) toolId = Some tool \<and>
        Map_get (servers (client rt)) (serverId tool) = Some connection \<and>
        status connection = CONNECTED \<and> name tool = ''echo'' \<and>
        get_message params = Inr msg \<and> truthy msg \<and>
        r = \<lparr>data = JObj [(''message'', msg)],
             result_metadata =
               Some \<lparr>cost = Some 0, latency = Some 10, timestamp = Some now\<rparr>\<rparr>)"
  by (auto simp: MCPClient_executeTool_def MCPServerConnection_executeTool_def
        split: option.splits sum.splits)

text \<open>
  With no rule at all the check of (\<open>agent1\<close>, \<open>fs:echo\<close>) is denied, and the call goes
  to the server and succeeds.
\<close>

theorem executeTool_denied_counterexample:
  "exec_all \<lparr>client = example_client, permissionManager = new_MCPPermissionManager\<rparr>
     [CheckPermission ''agent1'' ''fs:echo'' example_params,
      ExecuteTool ''fs:echo'' example_params JUndefined 7] =
     ([CheckOutcome \<lparr>allowed = False, reason = Some ''Agent does not have any permissions'',
                     requiresApproval = None\<rparr>,
       ToolOutcome (Inr (example_result 7))],
      \<lparr>client = example_client, permissionManager = new_MCPPermissionManager\<rparr>)"
  by (simp add: example_client_executeTool checkPermission_def new_MCPPermissionManager_def
        deny_def)

text \<open>
  C3. A rule with \<open>maxCallsPerSession = N\<close> must deny the check whenever the call count
  of the pair has reached \<open>N\<close>. The code does so for every limit other than zero
  (\<open>call_limit_denied\<close>). For \<open>N = 0\<close> it does not: \<open>if (toolPermissions.maxCallsPerSession)\<close>
  is false for the number 0, the limit block is skipped, and with the count 0 at the
  limit 0 the check allows the call.
\<close>

theorem call_limit_zero_allowed:
  "permissions (limited_manager 0) ''agent1'' = Some [''fs:echo'' \<mapsto> call_limit_rule 0] \<and>
   maxCallsPerSession (call_limit_rule 0) = Some 0 \<and>
   (0::int) \<le> int (getCallCount (limited_manager 0) ''agent1'' ''fs:echo'') \<and>
   checkPermission (limited_manager 0) ''agent1'' ''fs:echo'' example_params =
     \<lparr>allowed = True, reason = None, requiresApproval = None\<rparr>"
  by (simp add: limited_manager_rule call_limit_rule_def checkPermission_def check_call_limit_def
        check_cost_limit_def check_parameters_def)

text \<open>
  C4. For a server id \<open>sid\<close> in the server map, \<open>disconnectServer(sid)\<close> runs in two
  parts. At the call it disconnects the connection: until the method resumes after its
  \<open>await\<close>, the server map holds the connection, now not Connected, and the catalog is as
  it was. When it resumes, the server leaves the map and every descriptor of the server
  leaves the catalog in one step. After the call no descriptor has \<open>serverId = sid\<close>,
  \<open>listTools({serverId: sid})\<close> is empty and \<open>getTool\<close> finds none of the ids the server's
  descriptors had; the effects of the call are those of the disconnect; and for an id
  that is not empty the other servers and the descriptors of the other servers are
  left as they were.
\<close>

theorem disconnectServer_two_parts:
  assumes "Map_get (servers cl) sid = Some connection"
      and "client_ok cl"
  shows "disconnectServer_begin cl sid =
           (Inr (), awaiting_disconnect cl sid connection, disconnect_effects connection) \<and>
         Map_get (servers (awaiting_disconnect cl sid connection)) sid =
           Some (disconnected connection) \<and>
         status (disconnected connection) \<noteq> CONNECTED \<and>
         toolRegistry (awaiting_disconnect cl sid connection) = toolRegistry cl \<and>
         (case disconnectServer cl sid of
            (r, cl', effs) \<Rightarrow>
              r = Inr () \<and>
              effs = disconnect_effects connection \<and>
              cl' = disconnectServer_resume (awaiting_disconnect cl sid connection) sid \<and>
              servers cl' = Map_delete (servers cl) sid \<and>
              Map_get (servers cl') sid = None \<and>
              list_all (\<lambda>tool. serverId tool \<noteq> sid) (Map_values (toolRegistry cl')) \<and>
              listTools (toolRegistry cl')
                (Some \<lparr>serverId_f = Some sid, category_f = None, search_f = None\<rparr>) = [] \<and>
              list_all (\<lambda>tool. serverId tool = sid \<longrightarrow>
                           getTool (toolRegistry cl') (tool_id tool) = None)
                (Map_values (toolRegistry cl)) \<and>
              (sid \<noteq> [] \<longrightarrow>
                 toolRegistry cl' =
                   filter (\<lambda>kv. serverId (snd kv) \<noteq> sid) (toolRegistry cl)))"
proof -
  let ?mid = "awaiting_disconnect cl sid connection"
  let ?reg' = "foldl (\<lambda>reg tool. unregisterTool reg (tool_id tool)) (toolRegistry cl)
                      (listTools (toolRegistry cl) (only_serverId sid))"
  have reg: "registry_ok (toolRegistry cl)"
    using assms(2) by (simp add: client_ok_def)
  have ok: "connection_ok connection"
    using assms by (auto simp: client_ok_def intro: servers_ok_get)
  have b: "disconnectServer_begin cl sid = (Inr (), ?mid, disconnect_effects connection)"
    by (rule disconnectServer_begin_ok [OF assms(1) ok])
  have mid_conn: "Map_get (servers ?mid) sid = Some (disconnected connection)"
    by (simp add: awaiting_disconnect_def Map_get_def Map_set_def update_conv')
  have mid_status: "status (disconnected connection) \<noteq> CONNECTED"
    by (simp add: disconnected_def)
  have mid_reg: "toolRegistry ?mid = toolRegistry cl"
    by (simp add: awaiting_disconnect_def)
  have res: "disconnectServer cl sid =
      (Inr (), disconnectServer_resume ?mid sid, disconnect_effects connection)"
    by (simp add: disconnectServer_def b)
  have final: "disconnectServer_resume ?mid sid =
      cl\<lparr>servers := Map_delete (servers cl) sid, toolRegistry := ?reg'\<rparr>"
    by (rule disconnectServer_resume_awaiting)
  have gone: "\<forall>kv \<in> set ?reg'. serverId (snd kv) \<noteq> sid"
    by (rule unregister_server_tools(1) [OF reg refl])
  have former: "\<forall>tool \<in> set (Map_values (toolRegistry cl)).
                  serverId tool = sid \<longrightarrow> getTool ?reg' (tool_id tool) = None"
    by (rule unregister_server_tools(2) [OF reg refl])
  have empty: "listTools ?reg' (only_serverId sid) = []"
    by (rule unregister_server_tools(3) [OF reg refl])
  have none: "list_all (\<lambda>tool. serverId tool \<noteq> sid) (Map_values ?reg')"
    using gone by (auto simp: list_all_iff Map_values_def)
  have del: "Map_get (Map_delete (servers cl) sid) sid = None"
    by (simp add: Map_get_def Map_delete_def delete_conv)
  have frame: "sid \<noteq> [] \<longrightarrow>
      ?reg' = filter (\<lambda>kv. serverId (snd kv) \<noteq> sid) (toolRegistry cl)"
    using unregister_server_tools_exact [OF reg] by blast
  let ?cl' = "cl\<lparr>servers := Map_delete (servers cl) sid, toolRegistry := ?reg'\<rparr>"
  have res': "disconnectServer cl sid = (Inr (), ?cl', disconnect_effects connection)"
    by (simp only: res final)
  have p1: "?cl' = disconnectServer_resume ?mid sid"
    by (simp only: final)
  have p2: "servers ?cl' = Map_delete (servers cl) sid" by simp
  have p3: "Map_get (servers ?cl') sid = None" using del by simp
  have p4: "list_all (\<lambda>tool. serverId tool \<noteq> sid) (Map_values (toolRegistry ?cl'))"
    using none by simp
  have p5: "listTools (toolRegistry ?cl')
              (Some \<lparr>serverId_f = Some sid, category_f = None, search_f = None\<rparr>) = []"
    using empty by (simp add: only_serverId_def)
  have p6: "list_all (\<lambda>tool. serverId tool = sid \<longrightarrow>
                         getTool (toolRegistry ?cl') (tool_id tool) = None)
              (Map_values (toolRegistry cl))"
    using former by (simp add: list_all_iff)
  have p7: "sid \<noteq> [] \<longrightarrow>
              toolRegistry ?cl' = filter (\<lambda>kv. serverId (snd kv) \<noteq> sid) (toolRegistry cl)"
    using frame by simp
  show ?thesis
    unfolding res' prod.case
    by (intro conjI b mid_conn mid_status mid_reg refl p1 p2 p3 p4 p5 p6 p7)
qed

theorem disconnectServer_two_parts_witness:
  "Map_get (servers two_server_client) ''fs'' \<noteq> None \<and>
   client_ok two_server_client \<and>
   map fst (servers two_server_client) = [''fs'', ''db''] \<and>
   map fst (toolRegistry two_server_client) = [''fs:echo'', ''db:echo''] \<and>
   (case disconnectServer two_server_client ''fs'' of
      (r, cl', effs) \<Rightarrow>
        r = Inr () \<and> effs = [] \<and>
        servers cl' = Map_delete (servers two_server_client) ''fs'' \<and>
        map fst (servers cl') = [''db''] \<and>
        toolRegistry cl' = [(''db:echo'', tool_of_capability ''db'' echo_tool)] \<and>
        listTools (toolRegistry cl')
          (Some \<lparr>serverId_f = Some ''fs'', category_f = None, search_f = None\<rparr>) = [] \<and>
        getTool (toolRegistry cl') ''fs:echo'' = None)"
proof -
  have h0: "Map_get (servers two_server_client) ''fs'' \<noteq> None"
    by code_simp
  then obtain c where h1: "Map_get (servers two_server_client) ''fs'' = Some c"
    by blast
  have h2: "client_ok two_server_client"
    unfolding two_server_client_def example_client_def
    by (intro client_ok_connectServer client_ok_new)
  have ids: "map fst (servers two_server_client) = [''fs'', ''db'']"
    "map fst (toolRegistry two_server_client) = [''fs:echo'', ''db:echo'']"
    by code_simp+
  have d: "snd (snd (disconnectServer two_server_client ''fs'')) = [] \<and>
           map fst (servers (fst (snd (disconnectServer two_server_client ''fs'')))) = [''db''] \<and>
           toolRegistry (fst (snd (disconnectServer two_server_client ''fs''))) =
             [(''db:echo'', tool_of_capability ''db'' echo_tool)]"
    by code_simp
  obtain r cl' effs where eq: "disconnectServer two_server_client ''fs'' = (r, cl', effs)"
    by (cases "disconnectServer two_server_client ''fs''")
  have "r = Inr () \<and> servers cl' = Map_delete (servers two_server_client) ''fs''"
    using disconnectServer_two_parts [OF h1 h2] unfolding eq prod.case by blast
  then have t: "fst (disconnectServer two_server_client ''fs'') = Inr () \<and>
           servers (fst (snd (disconnectServer two_server_client ''fs''))) =
             Map_delete (servers two_server_client) ''fs''"
    by (simp add: eq)
  have l: "listTools [(''db:echo'', tool_of_capability ''db'' echo_tool)]
             (Some \<lparr>serverId_f = Some ''fs'', category_f = None, search_f = None\<rparr>) = [] \<and>
           getTool [(''db:echo'', tool_of_capability ''db'' echo_tool)] ''fs:echo'' = None"
    by code_simp
  show ?thesis
    using h0 h2 ids d t l by (simp add: case_prod_beta)
qed

text \<open>
  The disconnect and the removal are not one step. While \<open>disconnectServer("fs")\<close> is
  suspended, the connection of \<open>fs\<close> is Disconnected and the catalog still lists
  \<open>fs:echo\<close>: \<open>listTools({serverId: "fs"})\<close> returns it, \<open>getTool\<close> finds it, and
  \<open>executeTool\<close> of it fails on the closed connection.
\<close>

theorem disconnectServer_not_atomic_counterexample:
  "disconnectServer_begin two_server_client ''fs'' = (Inr (), suspended_client, []) \<and>
   map_option status (Map_get (servers suspended_client) ''fs'') = Some DISCONNECTED \<and>
   listTools (toolRegistry suspended_client)
     (Some \<lparr>serverId_f = Some ''fs'', category_f = None, search_f = None\<rparr>) =
     [tool_of_capability ''fs'' echo_tool] \<and>
   getTool (toolRegistry suspended_client) ''fs:echo'' =
     Some (tool_of_capability ''fs'' echo_tool) \<and>
   MCPClient_executeTool suspended_client ''fs:echo'' example_params JUndefined 7 =
     Inl (Error ''Not connected to server'')"
  by code_simp

text \<open>
  C5. \<open>disconnect()\<close> of a connection does nothing when the connection is not Connected.
  When it is Connected, every pending request gets its timer cleared and its promise
  rejected with \<open>Connection closed\<close>, once each and in the order of the Map, the Map of
  pending requests is empty afterwards, and the status is Disconnected.
\<close>

theorem disconnect_connection:
  assumes "connection_ok c"
  shows "MCPServerConnection_disconnect c =
           (if status c \<noteq> CONNECTED then (Inr (), c, [])
            else (Inr (), c\<lparr>pendingRequests := [], status := DISCONNECTED\<rparr>,
                  concat (map (\<lambda>(rid, request).
                                 [ClearTimeout (timeout_handle request),
                                  Reject (promise request) (Error ''Connection closed'')])
                            (pendingRequests c))))"
  using disconnect_ok [OF assms] by (simp add: rejections_def)

theorem disconnect_connection_witness:
  "connection_ok example_connection \<and>
   connection_ok (new_MCPServerConnection ''ws://localhost:8080'' None) \<and>
   MCPServerConnection_disconnect example_connection =
     (Inr (), example_connection\<lparr>pendingRequests := [], status := DISCONNECTED\<rparr>,
      [ClearTimeout 21, Reject 11 (Error ''Connection closed''),
       ClearTimeout 22, Reject 12 (Error ''Connection closed'')]) \<and>
   MCPServerConnection_disconnect (new_MCPServerConnection ''ws://localhost:8080'' None) =
     (Inr (), new_MCPServerConnection ''ws://localhost:8080'' None, [])"
proof -
  have h1: "connection_ok example_connection"
    by (simp add: connection_ok_def example_connection_def)
  have h2: "connection_ok (new_MCPServerConnection ''ws://localhost:8080'' None)"
    by (rule connection_ok_new)
  show ?thesis
    using h1 h2 disconnect_connection [OF h1] disconnect_connection [OF h2]
    by (simp add: example_connection_def new_MCPServerConnection_def)
qed

text \<open>
  C6. \<open>connectServer\<close> on a server id that is already in the server map fails with the
  duplicate-server error, and the client (server map, existing connection and tool
  catalog) is what it was.
\<close>

theorem connectServer_duplicate:
  "Map_has (servers cl) sid \<Longrightarrow>
     connectServer cl sid ep opts =
       (Inl (Error (''Server with ID '' @ sid @ '' already exists'')), cl)"
  by (simp add: connectServer_def)

theorem connectServer_duplicate_witness:
  "Map_has (servers example_client) ''fs'' \<and>
   connectServer example_client ''fs'' ''ws://other'' (Some (transport_options websocket)) =
     (Inl (Error ''Server with ID fs already exists''), example_client)"
proof -
  have h: "Map_has (servers example_client) ''fs''"
    by (simp add: example_client_eq Map_has_def)
  show ?thesis
    using h connectServer_duplicate [OF h, of "''ws://other''" "Some (transport_options websocket)"]
    by simp
qed

text \<open>
  C7. \<open>listTools(filter)\<close> returns, in insertion order, exactly the descriptors that match
  every filter field that is provided and not the empty string: \<open>serverId\<close> by equality,
  \<open>category\<close> by equality with \<open>metadata.category\<close>, \<open>search\<close> as a case-insensitive
  substring of the name or of the description. Without a filter it returns all
  descriptors, and \<open>searchTools(query)\<close> is \<open>listTools({search: query})\<close>.
\<close>

theorem listTools_matches:
  "listTools reg None = Map_values reg \<and>
   listTools reg (Some f) = filter (matches_filter f) (Map_values reg) \<and>
   searchTools reg query =
     listTools reg (Some \<lparr>serverId_f = None, category_f = None, search_f = Some query\<rparr>)"
proof -
  have e: "toLowerCase [] = []" by (simp add: toLowerCase_def)
  have "listTools reg (Some f) = filter (matches_filter f) (Map_values reg)"
    by (cases "serverId_f f"; cases "category_f f"; cases "search_f f")
       (auto simp: listTools_def matches_filter_def Let_def str_includes_empty e intro: filter_cong)
  then show ?thesis by (simp add: listTools_def searchTools_def)
qed

theorem listTools_matches_witness:
  "listTools (toolRegistry example_client)
     (Some \<lparr>serverId_f = Some ''fs'', category_f = None, search_f = Some ''ECHO BACK''\<rparr>) =
     [tool_of_capability ''fs'' echo_tool] \<and>
   listTools (toolRegistry example_client)
     (Some \<lparr>serverId_f = Some ''fs'', category_f = Some ''files'', search_f = None\<rparr>) = []"
proof -
  have l1: "toLowerCase ''ECHO BACK'' = ''echo back''" by code_simp
  have l2: "toLowerCase ''Echo back the input message'' = ''echo back the input message''"
    by code_simp
  have l3: "toLowerCase ''echo'' = ''echo''" by code_simp
  show ?thesis
    using listTools_matches [of "toolRegistry example_client"
        "\<lparr>serverId_f = Some ''fs'', category_f = None, search_f = Some ''ECHO BACK''\<rparr>"]
      listTools_matches [of "toolRegistry example_client"
        "\<lparr>serverId_f = Some ''fs'', category_f = Some ''files'', search_f = None\<rparr>"]
    by (simp add: example_client_eq Map_values_def matches_filter_def tool_of_capability_def
          echo_tool_def l1 l2 l3 metadata_category_def)
qed


text \<open>
  A \<open>serverId\<close> that is provided but empty is not matched by equality: the filter
  \<open>{serverId: ""}\<close> returns the descriptor of server \<open>fs\<close>.
\<close>

theorem listTools_empty_serverId_counterexample:
  "listTools (toolRegistry example_client)
     (Some \<lparr>serverId_f = Some '''', category_f = None, search_f = None\<rparr>) =
     [tool_of_capability ''fs'' echo_tool] \<and>
   serverId (tool_of_capability ''fs'' echo_tool) = ''fs'' \<and>
   filter (\<lambda>tool. serverId tool = '''') (Map_values (toolRegistry example_client)) = []"
  by (simp add: example_client_eq listTools_def Map_values_def tool_of_capability_def)

text \<open>
  C8. \<open>resetSession(c)\<close> puts the call counter and the cost counter of every tool of
  caller \<open>c\<close> back to zero. A check for \<open>c\<close> that was denied although a rule exists and
  the parameters are within the allow-list (so a call or cost limit denied it) is
  allowed after the reset, when the limits of the rule are not negative.
\<close>

theorem resetSession_allows_again:
  assumes "permissions pm agentId = Some agentPermissions"
      and "agentPermissions toolId = Some toolPermissions"
      and "limit_not_negative (maxCallsPerSession toolPermissions)"
      and "limit_not_negative (maxCostPerSession toolPermissions)"
      and "\<not> allowed (checkPermission pm agentId toolId params)"
      and "check_parameters toolPermissions params = None"
  shows "allowed (checkPermission (resetSession pm agentId) agentId toolId params) \<and>
         getCallCount (resetSession pm agentId) agentId anyTool = 0 \<and>
         getCost (resetSession pm agentId) agentId anyTool = 0"
proof -
  have p: "permissions (resetSession pm agentId) = permissions pm"
    by (simp add: resetSession_def)
  have "check_call_limit (resetSession pm agentId) agentId toolId toolPermissions = None"
    using assms(3)
    by (auto simp: check_call_limit_def resetSession_counters limit_not_negative_def
          split: option.splits)
  moreover have "check_cost_limit (resetSession pm agentId) agentId toolId toolPermissions = None"
    using assms(4)
    by (auto simp: check_cost_limit_def resetSession_counters limit_not_negative_def
          split: option.splits)
  ultimately have "allowed (checkPermission (resetSession pm agentId) agentId toolId params)"
    using assms(1,2,6) by (simp add: checkPermission_def p)
  then show ?thesis by (simp add: resetSession_counters)
qed

theorem resetSession_allows_again_witness:
  "\<not> allowed (checkPermission (recordToolUsage (limited_manager 1) ''agent1'' ''fs:echo'' None)
                  ''agent1'' ''fs:echo'' example_params) \<and>
   allowed (checkPermission
              (resetSession (recordToolUsage (limited_manager 1) ''agent1'' ''fs:echo'' None) ''agent1'')
              ''agent1'' ''fs:echo'' example_params)"
proof -
  let ?pm = "recordToolUsage (limited_manager 1) ''agent1'' ''fs:echo'' None"
  have h1: "permissions ?pm ''agent1'' = Some [''fs:echo'' \<mapsto> call_limit_rule 1]"
    by (simp add: permissions_recordToolUsage limited_manager_rule)
  have h2: "[''fs:echo'' \<mapsto> call_limit_rule 1] ''fs:echo'' = Some (call_limit_rule 1)"
    by simp
  have h3: "limit_not_negative (maxCallsPerSession (call_limit_rule 1))"
    by (simp add: limit_not_negative_def call_limit_rule_def)
  have h4: "limit_not_negative (maxCostPerSession (call_limit_rule 1))"
    by (simp add: limit_not_negative_def call_limit_rule_def)
  have h5: "\<not> allowed (checkPermission ?pm ''agent1'' ''fs:echo'' example_params)"
    by (simp add: checkPermission_def h1 check_call_limit_def call_limit_rule_def
          getCallCount_recordToolUsage deny_def)
  have h6: "check_parameters (call_limit_rule 1) example_params = None"
    by (simp add: check_parameters_def call_limit_rule_def)
  show ?thesis
    using h5 resetSession_allows_again [OF h1 h2 h3 h4 h5 h6] by simp
qed

text \<open>
  With the negative limit \<open>-1\<close> the count 0 has reached the limit: the check is denied
  because of the call limit alone, and it is denied again after the reset.
\<close>

theorem resetSession_negative_limit_counterexample:
  "checkPermission (limited_manager (- 1)) ''agent1'' ''fs:echo'' example_params =
     \<lparr>allowed = False, reason = Some ''Call limit exceeded (0/-1)'', requiresApproval = None\<rparr> \<and>
   check_cost_limit (limited_manager (- 1)) ''agent1'' ''fs:echo'' (call_limit_rule (- 1)) = None \<and>
   check_parameters (call_limit_rule (- 1)) example_params = None \<and>
   checkPermission (resetSession (limited_manager (- 1)) ''agent1'') ''agent1'' ''fs:echo''
     example_params =
     \<lparr>allowed = False, reason = Some ''Call limit exceeded (0/-1)'', requiresApproval = None\<rparr>"
proof -
  have s: "show_int 0 = ''0''" "show_int (- 1) = ''-1''" by code_simp+
  have r: "permissions (resetSession (limited_manager (- 1)) ''agent1'') ''agent1'' =
             Some [''fs:echo'' \<mapsto> call_limit_rule (- 1)]"
    by (simp add: resetSession_def limited_manager_rule)
  show ?thesis
    by (simp add: checkPermission_def limited_manager_rule r check_call_limit_def
          check_cost_limit_def check_parameters_def call_limit_rule_def getCallCount_def
          resetSession_def deny_def call_limit_reason_def s)
qed

text \<open>
  C9. \<open>checkPermission\<close> is read-only: it writes neither the rules nor the call counters
  nor the cost totals. Any number of checks in a row, with no other call in between,
  all return the result of the first and leave the whole state as it was.
\<close>

theorem checkPermission_read_only:
  "exec_all rt (replicate n (CheckPermission agentId toolId params)) =
     (replicate n (CheckOutcome (checkPermission (permissionManager rt) agentId toolId params)),
      rt)"
  by (induction n) simp_all

text \<open>
  C10. When \<open>connect()\<close> of the new connection fails inside \<open>connectServer\<close>, the call
  fails and the client is unchanged: the server id is not in the server map afterwards
  unless it was before, and no tool has been registered.
\<close>

theorem connectServer_connect_fails:
  "fst (MCPServerConnection_connect (new_MCPServerConnection ep opts)) = Inl e \<Longrightarrow>
     connectServer cl sid ep opts =
       (Inl (if Map_has (servers cl) sid
             then Error (''Server with ID '' @ sid @ '' already exists'') else e), cl)"
  by (auto simp: connectServer_def split: prod.splits sum.splits)

theorem connectServer_connect_fails_witness:
  "fst (MCPServerConnection_connect
          (new_MCPServerConnection ''pipe'' (Some (transport_options stdio)))) =
     Inl (Error ''Unsupported transport: stdio'') \<and>
   connectServer new_MCPClient ''local'' ''pipe'' (Some (transport_options stdio)) =
     (Inl (Error ''Unsupported transport: stdio''), new_MCPClient)"
proof -
  have h: "fst (MCPServerConnection_connect
                  (new_MCPServerConnection ''pipe'' (Some (transport_options stdio)))) =
             Inl (Error ''Unsupported transport: stdio'')"
    by (simp add: MCPServerConnection_connect_def new_MCPServerConnection_def
          transport_options_def transport_str_def)
  show ?thesis
    using h connectServer_connect_fails [OF h, of new_MCPClient "''local''"]
    by (simp add: new_MCPClient_def Map_has_def)
qed

end
